theory Spec2Isabelle
  imports Complex_Main
begin

section \<open>Python values shared by the notebooks\<close>

text \<open>
  The repository is two notebook files over numpy, pandas and Keras: part A trains the
  network, parts B and C augment the data, train again, save the model and predict.
  Each notebook cell is modelled as a function on the values it reads and assigns; a
  Python exception is the left injection of a sum. The spec's error names stand for these exceptions:
  ShapeMismatch is numpy's \<open>ValueError\<close> from \<open>reshape\<close>, LabelOutOfRange is the
  \<open>IndexError\<close> raised inside \<open>to_categorical\<close>, ImageNotFound is
  \<open>FileNotFoundError\<close> and UnsupportedImageFormat is \<open>UnidentifiedImageError\<close>.
  Floating-point numbers are modelled as exact rationals.
\<close>

datatype error =
    ValueError
  | IndexError
  | KeyError
  | TypeError
  | FileNotFoundError
  | UnidentifiedImageError
  | OverflowError
  | ZeroDivisionError

text \<open>
  A numpy array (or pandas column): its shape and its elements in row-major order.
  Integer elements are the mathematical values the array holds, whatever its dtype.
\<close>

record 'a ndarray =
  shape :: "nat list"
  data :: "'a list"

definition asize :: "'a ndarray \<Rightarrow> nat" where
  "asize a = prod_list (shape a)"

definition wf_array :: "'a ndarray \<Rightarrow> bool" where
  "wf_array a = (length (data a) = asize a)"

text \<open>
  Index normalisation of Python sequences and numpy axes: an index \<open>i\<close> into \<open>n\<close>
  places is valid when \<open>-n \<le> i < n\<close>, a negative one counts from the end, anything
  else raises \<open>IndexError\<close>.
\<close>

definition py_index :: "nat \<Rightarrow> int \<Rightarrow> error + nat" where
  "py_index n i =
     (if 0 \<le> i \<and> i < int n then Inr (nat i)
      else if - int n \<le> i \<and> i < 0 then Inr (nat (i + int n))
      else Inl IndexError)"

definition str_getitem :: "string \<Rightarrow> int \<Rightarrow> error + char" where
  "str_getitem s i =
     (case py_index (length s) i of Inl e \<Rightarrow> Inl e | Inr j \<Rightarrow> Inr (s ! j))"

section \<open>numpy and Keras operations the notebooks call\<close>

text \<open>\<open>a / c\<close> on an array: element-wise true division.\<close>

definition true_divide :: "rat ndarray \<Rightarrow> rat \<Rightarrow> rat ndarray" where
  "true_divide a c = a\<lparr>data := map (\<lambda>v. v / c) (data a)\<rparr>"

text \<open>
  \<open>a.reshape(*newshape)\<close>. At most one entry may be \<open>-1\<close>; it is inferred from the
  array's size and the other entries. numpy raises \<open>ValueError\<close> for another negative
  entry, for two unknown entries, for a size that the known entries do not divide, and
  for a total that differs from the array's size. The elements keep their order.
\<close>

definition reshape :: "'a ndarray \<Rightarrow> int list \<Rightarrow> error + 'a ndarray" where
  "reshape a newshape =
     (let known = filter (\<lambda>d. d \<noteq> - 1) newshape;
          unknown = length newshape - length known;
          k = prod_list (map nat known)
      in if list_ex (\<lambda>d. d < 0) known then Inl ValueError
         else if 1 < unknown then Inl ValueError
         else if unknown = 0 then
           (if k = asize a then Inr (a\<lparr>shape := map nat newshape\<rparr>) else Inl ValueError)
         else if k = 0 \<or> asize a mod k \<noteq> 0 then Inl ValueError
         else Inr (a\<lparr>shape := map (\<lambda>d. if d = - 1 then asize a div k else nat d) newshape\<rparr>))"

text \<open>\<open>a.shape[-1]\<close>: the last entry of the shape tuple; \<open>IndexError\<close> on the empty tuple.\<close>

definition shape_getitem :: "'a ndarray \<Rightarrow> int \<Rightarrow> error + nat" where
  "shape_getitem a i =
     (case py_index (length (shape a)) i of Inl e \<Rightarrow> Inl e | Inr j \<Rightarrow> Inr (shape a ! j))"


text \<open>
  \<open>keras.utils.to_categorical(y, num_classes)\<close>, as Keras implements it:
  \<^verbatim>\<open>
  y = np.array(y, dtype='int')
  input_shape = y.shape
  if input_shape and input_shape[-1] == 1 and len(input_shape) > 1:
      input_shape = tuple(input_shape[:-1])
  y = y.ravel()
  if not num_classes:
      num_classes = np.max(y) + 1
  n = y.shape[0]
  categorical = np.zeros((n, num_classes), dtype=dtype)
  categorical[np.arange(n), y] = 1
  output_shape = input_shape + (num_classes,)
  categorical = np.reshape(categorical, output_shape)
  \<close>
  The first line casts the labels to int64. A column whose values all fit int64 is
  kept. A column whose values all lie in \<open>[0, 2^64)\<close> with one beyond int64 is held as
  uint64 and the cast wraps it modulo \<open>2^64\<close>. Any other column holds Python
  integers, and converting one that does not fit int64 raises \<open>OverflowError\<close>.
  The indexed assignment follows numpy's index rule (\<open>py_index\<close>): a label outside
  \<open>-num_classes \<le> y < num_classes\<close> raises \<open>IndexError\<close>, a negative label in that
  range counts from the end of its row.
\<close>

definition astype_int :: "int list \<Rightarrow> error + int list" where
  "astype_int ys =
     (if list_all (\<lambda>L. - (2 ^ 63) \<le> L \<and> L < 2 ^ 63) ys then Inr ys
      else if list_all (\<lambda>L. 0 \<le> L \<and> L < 2 ^ 64) ys
      then Inr (map (\<lambda>L. if L < 2 ^ 63 then L else L - 2 ^ 64) ys)
      else Inl OverflowError)"

definition onehot_row :: "nat \<Rightarrow> nat \<Rightarrow> int list" where
  "onehot_row num_classes j = (replicate num_classes 0)[j := 1]"

fun assign_rows :: "nat \<Rightarrow> int list \<Rightarrow> error + int list list" where
  "assign_rows c [] = Inr []"
| "assign_rows c (y # ys) =
     (case py_index c y of
        Inl e \<Rightarrow> Inl e
      | Inr j \<Rightarrow>
          (case assign_rows c ys of
             Inl e \<Rightarrow> Inl e
           | Inr rows \<Rightarrow> Inr (onehot_row c j # rows)))"

definition infer_num_classes :: "int list \<Rightarrow> error + nat" where
  "infer_num_classes ys =
     (case ys of
        [] \<Rightarrow> Inl ValueError
      | y # rest \<Rightarrow> (let m = fold max rest y + 1 in if m < 0 then Inl ValueError else Inr (nat m)))"

definition to_categorical :: "int ndarray \<Rightarrow> nat \<Rightarrow> error + int ndarray" where
  "to_categorical y num_classes =
     (let input_shape =
            (if shape y \<noteq> [] \<and> last (shape y) = 1 \<and> 1 < length (shape y)
             then butlast (shape y) else shape y)
      in case astype_int (data y) of
           Inl e \<Rightarrow> Inl e
         | Inr ys \<Rightarrow>
             (case (if num_classes = 0 then infer_num_classes ys else Inr num_classes) of
                Inl e \<Rightarrow> Inl e
              | Inr c \<Rightarrow>
                  (case assign_rows c ys of
                     Inl e \<Rightarrow> Inl e
                   | Inr rows \<Rightarrow> Inr \<lparr>shape = input_shape @ [c], data = concat rows\<rparr>)))"

text \<open>
  \<open>np.argmax(a)\<close> on the flattened array: the index of the first occurrence of the
  maximum; \<open>ValueError\<close> on an empty array. The scan keeps the best index so far and
  replaces it only by a strictly greater element.
\<close>

fun argmax_from :: "'a::linorder list \<Rightarrow> nat \<Rightarrow> nat \<Rightarrow> 'a \<Rightarrow> nat" where
  "argmax_from [] i best v = best"
| "argmax_from (x # xs) i best v =
     (if v < x then argmax_from xs (Suc i) i x else argmax_from xs (Suc i) best v)"

definition argmax :: "'a::linorder ndarray \<Rightarrow> error + nat" where
  "argmax a = (case data a of [] \<Rightarrow> Inl ValueError | x # xs \<Rightarrow> Inr (argmax_from xs 1 0 x))"

text \<open>
  \<open>a[i, j]\<close> and \<open>a[i, r, c, ch]\<close> with non-negative indices: row-major addressing,
  \<open>IndexError\<close> for a wrong number of indices or an index out of bounds.
\<close>

definition getitem2 :: "'a ndarray \<Rightarrow> nat \<Rightarrow> nat \<Rightarrow> error + 'a" where
  "getitem2 a i j =
     (case shape a of
        [d0, d1] \<Rightarrow> if i < d0 \<and> j < d1 then Inr (data a ! (i * d1 + j)) else Inl IndexError
      | _ \<Rightarrow> Inl IndexError)"

definition getitem4 :: "'a ndarray \<Rightarrow> nat \<Rightarrow> nat \<Rightarrow> nat \<Rightarrow> nat \<Rightarrow> error + 'a" where
  "getitem4 a i r c ch =
     (case shape a of
        [d0, d1, d2, d3] \<Rightarrow>
          if i < d0 \<and> r < d1 \<and> c < d2 \<and> ch < d3
          then Inr (data a ! (((i * d1 + r) * d2 + c) * d3 + ch)) else Inl IndexError
      | _ \<Rightarrow> Inl IndexError)"

section \<open>Notebook A: the preprocessing cells\<close>

text \<open>
  The variables the preprocessing cells read and assign. A cell returns the variables
  as it leaves them and the exception that stopped it, if any: an assignment made
  before the exception stays.
\<close>

definition num_classes_a :: nat where
  "num_classes_a = 24"

record notebook =
  x_train :: "rat ndarray"
  y_train :: "int ndarray"
  x_valid :: "rat ndarray"
  y_valid :: "int ndarray"

text \<open>
  \<^verbatim>\<open>
  x_train = x_train / 255
  x_valid = x_valid / 255
  \<close>
\<close>

definition normalize_cell :: "notebook \<Rightarrow> notebook" where
  "normalize_cell s =
     (let s = s\<lparr>x_train := true_divide (x_train s) 255\<rparr>;
          s = s\<lparr>x_valid := true_divide (x_valid s) 255\<rparr>
      in s)"

text \<open>
  \<^verbatim>\<open>
  num_classes = 24
  if not y_train.shape[-1] == 24:  # Avoid running multiple times
      y_train = keras.utils.to_categorical(y_train, num_classes)
      y_valid = keras.utils.to_categorical(y_valid, num_classes)
  \<close>
\<close>

definition categorize_cell :: "notebook \<Rightarrow> notebook \<times> error option" where
  "categorize_cell s =
     (case shape_getitem (y_train s) (- 1) of
        Inl e \<Rightarrow> (s, Some e)
      | Inr d \<Rightarrow>
          if \<not> d = 24 then
            (case to_categorical (y_train s) num_classes_a of
               Inl e \<Rightarrow> (s, Some e)
             | Inr yt \<Rightarrow>
                 (case to_categorical (y_valid s) num_classes_a of
                    Inl e \<Rightarrow> (s\<lparr>y_train := yt\<rparr>, Some e)
                  | Inr yv \<Rightarrow> (s\<lparr>y_train := yt, y_valid := yv\<rparr>, None)))
          else (s, None))"

text \<open>
  \<^verbatim>\<open>
  x_train = x_train.reshape(-1,28,28,1)
  x_valid = x_valid.reshape(-1,28,28,1)
  \<close>
\<close>

definition reshape_cell :: "notebook \<Rightarrow> notebook \<times> error option" where
  "reshape_cell s =
     (case reshape (x_train s) [- 1, 28, 28, 1] of
        Inl e \<Rightarrow> (s, Some e)
      | Inr xt \<Rightarrow>
          (case reshape (x_valid s) [- 1, 28, 28, 1] of
             Inl e \<Rightarrow> (s\<lparr>x_train := xt\<rparr>, Some e)
           | Inr xv \<Rightarrow> (s\<lparr>x_train := xt, x_valid := xv\<rparr>, None)))"

text \<open>Running a cell again and again on the variables the last run left.\<close>

fun run_times :: "nat \<Rightarrow> ('s \<Rightarrow> 's \<times> error option) \<Rightarrow> 's \<Rightarrow> 's" where
  "run_times 0 cell s = s"
| "run_times (Suc k) cell s = run_times k cell (fst (cell s))"

section \<open>Notebook B: the data cell\<close>

definition num_classes_b :: nat where
  "num_classes_b = 24"

text \<open>A pandas data frame of integers: the column names and the rows.\<close>

record dataframe =
  columns :: "string list"
  rows :: "int list list"

fun column_index :: "string list \<Rightarrow> string \<Rightarrow> nat option" where
  "column_index [] c = None"
| "column_index (x # xs) c =
     (if x = c then Some 0 else map_option Suc (column_index xs c))"

text \<open>\<open>df[c]\<close>, \<open>del df[c]\<close> (\<open>KeyError\<close> for an unknown column) and \<open>df.values\<close>.\<close>

definition df_getitem :: "dataframe \<Rightarrow> string \<Rightarrow> error + int ndarray" where
  "df_getitem df c =
     (case column_index (columns df) c of
        None \<Rightarrow> Inl KeyError
      | Some j \<Rightarrow> Inr \<lparr>shape = [length (rows df)], data = map (\<lambda>r. r ! j) (rows df)\<rparr>)"

definition df_delitem :: "dataframe \<Rightarrow> string \<Rightarrow> error + dataframe" where
  "df_delitem df c =
     (case column_index (columns df) c of
        None \<Rightarrow> Inl KeyError
      | Some j \<Rightarrow>
          Inr \<lparr>columns = take j (columns df) @ drop (Suc j) (columns df),
               rows = map (\<lambda>r. take j r @ drop (Suc j) r) (rows df)\<rparr>)"

definition df_values :: "dataframe \<Rightarrow> rat ndarray" where
  "df_values df =
     \<lparr>shape = [length (rows df), length (columns df)],
      data = map rat_of_int (concat (rows df))\<rparr>"

definition train_csv :: string where
  "train_csv = ''/content/drive/MyDrive/asl_data/sign_mnist_train.csv''"

definition valid_csv :: string where
  "valid_csv = ''/content/drive/MyDrive/asl_data/sign_mnist_valid.csv''"

text \<open>
  The variables of notebook B's data cell: the four arrays and the two data frames.
  A cell is the list of its statements; a statement either raises or returns the
  variables with its assignment made, and the cell stops at the first exception.
\<close>

record notebook_b = notebook +
  train_df :: dataframe
  valid_df :: dataframe

fun run_cell :: "('s \<Rightarrow> error + 's) list \<Rightarrow> 's \<Rightarrow> 's \<times> error option" where
  "run_cell [] s = (s, None)"
| "run_cell (stmt # stmts) s =
     (case stmt s of Inl e \<Rightarrow> (s, Some e) | Inr s' \<Rightarrow> run_cell stmts s')"

definition assign :: "error + 'v \<Rightarrow> ('v \<Rightarrow> 's) \<Rightarrow> error + 's" where
  "assign r upd = (case r of Inl e \<Rightarrow> Inl e | Inr v \<Rightarrow> Inr (upd v))"

text \<open>
  The data cell of notebook B; \<open>read_csv\<close> is pandas reading the file system.
  \<^verbatim>\<open>
  train_df = pd.read_csv("/content/drive/MyDrive/asl_data/sign_mnist_train.csv")
  valid_df = pd.read_csv("/content/drive/MyDrive/asl_data/sign_mnist_valid.csv")
  y_train = train_df['label']
  y_valid = valid_df['label']
  del train_df['label']
  del valid_df['label']
  x_train = train_df.values
  x_valid = valid_df.values
  num_classes = 24
  y_train = keras.utils.to_categorical(y_train, num_classes)
  y_valid = keras.utils.to_categorical(y_valid, num_classes)
  x_train = x_train / 255
  x_valid = x_valid / 255
  x_train = x_train.reshape(-1,28,28,1)
  x_valid = x_valid.reshape(-1,28,28,1)
  \<close>
\<close>

definition prepare_data_b ::
    "(string \<Rightarrow> error + dataframe) \<Rightarrow> notebook_b \<Rightarrow> notebook_b \<times> error option" where
  "prepare_data_b read_csv =
     run_cell
      [\<lambda>s. assign (read_csv train_csv) (\<lambda>v. s\<lparr>train_df := v\<rparr>),
       \<lambda>s. assign (read_csv valid_csv) (\<lambda>v. s\<lparr>valid_df := v\<rparr>),
       \<lambda>s. assign (df_getitem (train_df s) ''label'') (\<lambda>v. s\<lparr>y_train := v\<rparr>),
       \<lambda>s. assign (df_getitem (valid_df s) ''label'') (\<lambda>v. s\<lparr>y_valid := v\<rparr>),
       \<lambda>s. assign (df_delitem (train_df s) ''label'') (\<lambda>v. s\<lparr>train_df := v\<rparr>),
       \<lambda>s. assign (df_delitem (valid_df s) ''label'') (\<lambda>v. s\<lparr>valid_df := v\<rparr>),
       \<lambda>s. Inr (s\<lparr>x_train := df_values (train_df s)\<rparr>),
       \<lambda>s. Inr (s\<lparr>x_valid := df_values (valid_df s)\<rparr>),
       \<lambda>s. assign (to_categorical (y_train s) num_classes_b) (\<lambda>v. s\<lparr>y_train := v\<rparr>),
       \<lambda>s. assign (to_categorical (y_valid s) num_classes_b) (\<lambda>v. s\<lparr>y_valid := v\<rparr>),
       \<lambda>s. Inr (s\<lparr>x_train := true_divide (x_train s) 255\<rparr>),
       \<lambda>s. Inr (s\<lparr>x_valid := true_divide (x_valid s) 255\<rparr>),
       \<lambda>s. assign (reshape (x_train s) [- 1, 28, 28, 1]) (\<lambda>v. s\<lparr>x_train := v\<rparr>),
       \<lambda>s. assign (reshape (x_valid s) [- 1, 28, 28, 1]) (\<lambda>v. s\<lparr>x_valid := v\<rparr>)]"

text \<open>
  Sample values: two raw training labels and one raw validation label for notebook
  A, and variables whose training label is raw while the validation label is already
  one-hot; for notebook B a file system whose CSV files hold one row with label 3 and 784 zero
  pixels, and variables that hold nothing yet.
\<close>

definition raw_labels :: notebook where
  "raw_labels =
     \<lparr>x_train = \<lparr>shape = [2, 784], data = replicate 1568 0\<rparr>,
      y_train = \<lparr>shape = [2], data = [3, 0]\<rparr>,
      x_valid = \<lparr>shape = [1, 784], data = replicate 784 0\<rparr>,
      y_valid = \<lparr>shape = [1], data = [1]\<rparr>\<rparr>"

definition half_encoded :: notebook where
  "half_encoded =
     \<lparr>x_train = \<lparr>shape = [1, 784], data = replicate 784 0\<rparr>,
      y_train = \<lparr>shape = [1], data = [3]\<rparr>,
      x_valid = \<lparr>shape = [1, 784], data = replicate 784 0\<rparr>,
      y_valid = \<lparr>shape = [1, 24], data = (replicate 24 0)[1 := 1]\<rparr>\<rparr>"

definition one_row_csv :: "string \<Rightarrow> error + dataframe" where
  "one_row_csv path =
     Inr \<lparr>columns = ''label'' # replicate 784 ''pixel'', rows = [3 # replicate 784 0]\<rparr>"

definition empty_notebook_b :: notebook_b where
  "empty_notebook_b =
     \<lparr>x_train = \<lparr>shape = [0], data = []\<rparr>, y_train = \<lparr>shape = [0], data = []\<rparr>,
      x_valid = \<lparr>shape = [0], data = []\<rparr>, y_valid = \<lparr>shape = [0], data = []\<rparr>,
      train_df = \<lparr>columns = [], rows = []\<rparr>, valid_df = \<lparr>columns = [], rows = []\<rparr>\<rparr>"

section \<open>Notebook B: the augmented batches and the training call\<close>

text \<open>
  \<open>datagen.flow(x_train, y_train, batch_size=batch_size)\<close> returns a Keras
  \<open>NumpyArrayIterator\<close> over \<open>n = len(x_train)\<close> samples (\<open>ValueError\<close> when
  \<open>x\<close> and \<open>y\<close> differ in length or \<open>x\<close> does not have four dimensions). Its
  \<open>next()\<close> runs the index generator
  \<^verbatim>\<open>
  while 1:
      if self.batch_index == 0:
          self._set_index_array()
      if self.n == 0:
          current_index = 0
      else:
          current_index = (self.batch_index * self.batch_size) % self.n
      if self.n > current_index + self.batch_size:
          self.batch_index += 1
      else:
          self.batch_index = 0
      self.total_batches_seen += 1
      yield self.index_array[current_index: current_index + self.batch_size]
  \<close>
  A batch is modelled by the positions it takes from the index array; the random
  permutation behind the index array and the random transform applied to each image
  do not change how many batches or samples are drawn.
\<close>

record iterator =
  it_n :: nat
  it_batch_size :: nat
  batch_index :: nat
  total_batches_seen :: nat



definition next_batch :: "iterator \<Rightarrow> nat list \<times> iterator" where
  "next_batch it =
     (let n = it_n it; bs = it_batch_size it;
          current_index = (if n = 0 then 0 else (batch_index it * bs) mod n);
          it = (if current_index + bs < n then it\<lparr>batch_index := batch_index it + 1\<rparr>
                else it\<lparr>batch_index := 0\<rparr>);
          it = it\<lparr>total_batches_seen := total_batches_seen it + 1\<rparr>
      in ([current_index ..< min (current_index + bs) n], it))"

text \<open>Drawing \<open>k\<close> batches in a row, as \<open>k\<close> calls of \<open>next()\<close> do.\<close>

fun draw :: "nat \<Rightarrow> iterator \<Rightarrow> nat list list \<times> iterator" where
  "draw 0 it = ([], it)"
| "draw (Suc k) it =
     (let (b, it1) = next_batch it; (bs, it2) = draw k it1 in (b # bs, it2))"







section \<open>The alphabet of the inference notebook\<close>

text \<open>
  \<^verbatim>\<open>
  # Alphabet does not contain j or z because they require movement
  alphabet = "abcdefghiklmnopqrstuvwxy"
  \<close>
\<close>

definition alphabet :: string where
  "alphabet = ''abcdefghiklmnopqrstuvwxy''"

section \<open>Notebook C: inference\<close>

text \<open>
  An image as PIL holds it: mode, width, height and the channel values (0 to 255) in
  row-major order. \<open>image_utils.img_to_array\<close> turns it into an array of shape
  (height, width, channels).
\<close>

datatype color_mode = Grayscale | Rgb | Rgba

record pil_image =
  im_mode :: color_mode
  im_width :: nat
  im_height :: nat
  im_pixels :: "nat list"

fun channels :: "color_mode \<Rightarrow> nat" where
  "channels Grayscale = 1"
| "channels Rgb = 3"
| "channels Rgba = 4"

definition img_to_array :: "pil_image \<Rightarrow> rat ndarray" where
  "img_to_array img =
     \<lparr>shape = [im_height img, im_width img, channels (im_mode img)],
      data = map rat_of_nat (im_pixels img)\<rparr>"

text \<open>
  What the inference cells take from outside: matplotlib's \<open>mpimg.imread\<close>, Keras's
  \<open>image_utils.load_img\<close> with its \<open>color_mode\<close> and \<open>target_size\<close> arguments
  (\<open>target_size\<close> is (height, width)), and \<open>model.predict\<close> of the global \<open>model\<close>
  loaded from \<open>asl_model\<close>.
\<close>

record runtime =
  imread :: "string \<Rightarrow> error + rat ndarray"
  load_img :: "string \<Rightarrow> color_mode \<Rightarrow> (nat \<times> nat) option \<Rightarrow> error + pil_image"
  model_predict :: "rat ndarray \<Rightarrow> error + rat ndarray"

definition raise_or :: "error + 'a \<Rightarrow> ('a \<Rightarrow> error + 'b) \<Rightarrow> error + 'b" where
  "raise_or r f = (case r of Inl e \<Rightarrow> Inl e | Inr v \<Rightarrow> f v)"

text \<open>
  \<^verbatim>\<open>
  def show_image(image_path):
      image = mpimg.imread(image_path)
      plt.imshow(image, cmap='gray')
  \<close>
  The figures shown so far are the state the function changes.
\<close>

definition show_image :: "runtime \<Rightarrow> string \<Rightarrow> rat ndarray list \<Rightarrow> (error + unit) \<times> rat ndarray list" where
  "show_image E image_path figures =
     (case imread E image_path of
        Inl e \<Rightarrow> (Inl e, figures)
      | Inr img \<Rightarrow> (Inr (), figures @ [img]))"

text \<open>
  \<^verbatim>\<open>
  def load_and_scale_image(image_path):
      image = image_utils.load_img(image_path, color_mode="grayscale", target_size=(28,28))
      return image
  \<close>
\<close>

definition load_and_scale_image :: "runtime \<Rightarrow> string \<Rightarrow> error + pil_image" where
  "load_and_scale_image E image_path = load_img E image_path Grayscale (Some (28, 28))"

text \<open>
  \<^verbatim>\<open>
  def predict_letter(file_path):
      show_image(file_path)
      image = load_and_scale_image(file_path)
      image = image_utils.img_to_array(image)
      image = image.reshape(1,28,28,1)
      image = image/255
      prediction = model.predict(image)
      # convert prediction to letter
      predicted_letter = alphabet[np.argmax(prediction)]
      return predicted_letter
  \<close>
\<close>

definition predict_letter :: "runtime \<Rightarrow> string \<Rightarrow> rat ndarray list \<Rightarrow> (error + char) \<times> rat ndarray list" where
  "predict_letter E file_path figures =
     (case show_image E file_path figures of
        (Inl e, figures') \<Rightarrow> (Inl e, figures')
      | (Inr u, figures') \<Rightarrow>
          (raise_or (load_and_scale_image E file_path) (\<lambda>img.
             let img = img_to_array img in
             raise_or (reshape img [1, 28, 28, 1]) (\<lambda>img.
               let img = true_divide img 255 in
               raise_or (model_predict E img) (\<lambda>prediction.
                 raise_or (argmax prediction) (\<lambda>k.
                   str_getitem alphabet (int k))))),
           figures'))"

text \<open>
  A blank (all-zero) 28x28 image, and a runtime that shows and loads it for every path
  and whose model answers every input with the given 24 probabilities; with equal
  probabilities it is the degenerate model of the spec's testable properties.
\<close>

definition blank_image :: pil_image where
  "blank_image = \<lparr>im_mode = Grayscale, im_width = 28, im_height = 28, im_pixels = replicate 784 0\<rparr>"

definition blank_runtime :: "rat list \<Rightarrow> runtime" where
  "blank_runtime probabilities =
     \<lparr>imread = (\<lambda>path. Inr \<lparr>shape = [28, 28], data = replicate 784 0\<rparr>),
      load_img = (\<lambda>path mode target. Inr blank_image),
      model_predict = (\<lambda>x. Inr \<lparr>shape = [1, 24], data = probabilities\<rparr>)\<rparr>"




section \<open>The model declarations of the two notebooks\<close>

datatype padding = Same | Valid

datatype activation = Relu | Softmax

datatype layer =
    Conv2D nat "nat \<times> nat" nat padding activation "(nat \<times> nat \<times> nat) option"
  | BatchNormalization
  | MaxPool2D "nat \<times> nat" nat padding
  | Dropout rat
  | Flatten
  | Dense nat activation

type_synonym sequential = "layer list"

definition Sequential :: sequential where
  "Sequential = []"

definition add :: "sequential \<Rightarrow> layer \<Rightarrow> sequential" where
  "add m l = m @ [l]"

text \<open>Notebook A (\<open>Asl_a_cnn.ipynb\<close>): fourteen \<open>model.add\<close> calls; the last reads \<open>num_classes\<close>.\<close>

definition model_a :: sequential where
  "model_a =
     (let model = Sequential;
          model = add model (Conv2D 75 (3, 3) 1 Same Relu (Some (28, 28, 1)));
          model = add model BatchNormalization;
          model = add model (MaxPool2D (2, 2) 2 Same);
          model = add model (Conv2D 50 (3, 3) 1 Same Relu None);
          model = add model (Dropout (2 / 10));
          model = add model BatchNormalization;
          model = add model (MaxPool2D (2, 2) 2 Same);
          model = add model (Conv2D 25 (3, 3) 1 Same Relu None);
          model = add model BatchNormalization;
          model = add model (MaxPool2D (2, 2) 2 Same);
          model = add model Flatten;
          model = add model (Dense 512 Relu);
          model = add model (Dropout (3 / 10));
          model = add model (Dense num_classes_a Softmax)
      in model)"

text \<open>
  Notebook B (\<open>Asl_b_c_augment_pred.ipynb\<close>): \<open>num_classes = 24\<close> is assigned in the
  data cell, the model cell reads it.
\<close>

definition model_b :: sequential where
  "model_b =
     (let model = Sequential;
          model = add model (Conv2D 75 (3, 3) 1 Same Relu (Some (28, 28, 1)));
          model = add model BatchNormalization;
          model = add model (MaxPool2D (2, 2) 2 Same);
          model = add model (Conv2D 50 (3, 3) 1 Same Relu None);
          model = add model (Dropout (2 / 10));
          model = add model BatchNormalization;
          model = add model (MaxPool2D (2, 2) 2 Same);
          model = add model (Conv2D 25 (3, 3) 1 Same Relu None);
          model = add model BatchNormalization;
          model = add model (MaxPool2D (2, 2) 2 Same);
          model = add model Flatten;
          model = add model (Dense 512 Relu);
          model = add model (Dropout (3 / 10));
          model = add model (Dense num_classes_b Softmax)
      in model)"

section \<open>Theorems\<close>

subsection \<open>The alphabet\<close>

lemma alphabet_chars:
  "set alphabet = set ''abcdefghijklmnopqrstuvwxyz'' - {CHR ''j'', CHR ''z''}"
  unfolding alphabet_def by auto

text \<open>
  C2. The alphabet string of the inference notebook has exactly 24 characters, all
  different; its characters are the 26 lower-case letters without \<open>j\<close> and \<open>z\<close>;
  index 0 is \<open>a\<close>, index 8 is \<open>i\<close>, index 9 is \<open>k\<close> and the last index 23 is \<open>y\<close>.
\<close>

theorem alphabet_mapping:
  "length alphabet = 24
   \<and> distinct alphabet
   \<and> set alphabet = set ''abcdefghijklmnopqrstuvwxyz'' - {CHR ''j'', CHR ''z''}
   \<and> str_getitem alphabet 0 = Inr CHR ''a''
   \<and> str_getitem alphabet 8 = Inr CHR ''i''
   \<and> str_getitem alphabet 9 = Inr CHR ''k''
   \<and> str_getitem alphabet 23 = Inr CHR ''y''
   \<and> str_getitem alphabet (int (length alphabet) - 1) = Inr CHR ''y''"
proof -
  have len: "length alphabet = 24" and dist: "distinct alphabet"
    by (simp_all add: alphabet_def)
  have idx: "str_getitem alphabet 0 = Inr CHR ''a''"
    "str_getitem alphabet 8 = Inr CHR ''i''"
    "str_getitem alphabet 9 = Inr CHR ''k''"
    "str_getitem alphabet 23 = Inr CHR ''y''"
    by (simp_all add: str_getitem_def py_index_def alphabet_def)
  from len idx(4) have lst: "str_getitem alphabet (int (length alphabet) - 1) = Inr CHR ''y''"
    by simp
  from len dist alphabet_chars idx lst show ?thesis by blast
qed

subsection \<open>The two model declarations\<close>

text \<open>
  C10. The model declared in notebook B is layer for layer the model declared in
  notebook A: the same fourteen layers in the same order with the same hyperparameters
  (convolutions of 75, 50 and 25 filters with 3x3 kernels, stride 1, same padding and
  relu; 2x2 max pooling with stride 2; dropout 0.2 after the second convolution and 0.3
  after the 512-unit dense layer; a final 24-unit softmax layer).
\<close>

theorem model_b_same_as_model_a:
  "model_b = model_a
   \<and> model_a =
      [Conv2D 75 (3, 3) 1 Same Relu (Some (28, 28, 1)), BatchNormalization, MaxPool2D (2, 2) 2 Same,
       Conv2D 50 (3, 3) 1 Same Relu None, Dropout (1 / 5), BatchNormalization, MaxPool2D (2, 2) 2 Same,
       Conv2D 25 (3, 3) 1 Same Relu None, BatchNormalization, MaxPool2D (2, 2) 2 Same,
       Flatten, Dense 512 Relu, Dropout (3 / 10), Dense 24 Softmax]"
  by (simp add: model_a_def model_b_def add_def Sequential_def num_classes_a_def num_classes_b_def)

subsection \<open>Reshaping\<close>

lemma reshape_batch:
  "reshape a [- 1, 28, 28, 1] =
     (if asize a mod 784 = 0 then Inr (a\<lparr>shape := [asize a div 784, 28, 28, 1]\<rparr>) else Inl ValueError)"
  by (simp add: reshape_def Let_def)

lemma reshape_single:
  "reshape a [1, 28, 28, 1] =
     (if asize a = 784 then Inr (a\<lparr>shape := [1, 28, 28, 1]\<rparr>) else Inl ValueError)"
  by (auto simp add: reshape_def Let_def)

text \<open>
  C7 (amended). The reshape of the inference function, \<open>reshape(1,28,28,1)\<close>, raises
  \<open>ValueError\<close> (the spec's ShapeMismatch) exactly when the array does not hold 784
  values, and succeeds for 784 values. The reshape of the training data,
  \<open>reshape(-1,28,28,1)\<close>, raises exactly when the total number of values is not a
  multiple of 784; it succeeds for every multiple of 784, in particular for every
  array of rows of length 784, and then splits the values into grids of 784.
\<close>

theorem reshape_fails_iff:
  "(reshape a [1, 28, 28, 1] = Inl ValueError \<longleftrightarrow> asize a \<noteq> 784)
   \<and> (asize a = 784 \<longrightarrow> reshape a [1, 28, 28, 1] = Inr (a\<lparr>shape := [1, 28, 28, 1]\<rparr>))
   \<and> (reshape a [- 1, 28, 28, 1] = Inl ValueError \<longleftrightarrow> asize a mod 784 \<noteq> 0)
   \<and> (asize a mod 784 = 0 \<longrightarrow>
        reshape a [- 1, 28, 28, 1] = Inr (a\<lparr>shape := [asize a div 784, 28, 28, 1]\<rparr>))
   \<and> (shape a = [n, 784] \<longrightarrow> reshape a [- 1, 28, 28, 1] = Inr (a\<lparr>shape := [n, 28, 28, 1]\<rparr>))"
  by (simp add: reshape_batch reshape_single asize_def)

theorem reshape_fails_iff_witness:
  "reshape \<lparr>shape = [2, 784], data = replicate 1568 (0::rat)\<rparr> [- 1, 28, 28, 1]
     = Inr \<lparr>shape = [2, 28, 28, 1], data = replicate 1568 0\<rparr>
   \<and> reshape \<lparr>shape = [784], data = replicate 784 (0::rat)\<rparr> [1, 28, 28, 1]
     = Inr \<lparr>shape = [1, 28, 28, 1], data = replicate 784 0\<rparr>
   \<and> reshape \<lparr>shape = [783], data = replicate 783 (0::rat)\<rparr> [- 1, 28, 28, 1] = Inl ValueError"
  using reshape_fails_iff [of "\<lparr>shape = [2, 784], data = replicate 1568 (0::rat)\<rparr>" 2]
    reshape_fails_iff [of "\<lparr>shape = [784], data = replicate 784 (0::rat)\<rparr>" 1]
    reshape_fails_iff [of "\<lparr>shape = [783], data = replicate 783 (0::rat)\<rparr>" 1]
  by (simp add: asize_def)

text \<open>
  The claim as stated fails for the training reshape: one row of 1568 values is not
  of length 784, and is reshaped, without an error, into two grids.
\<close>

theorem reshape_double_row_counterexample:
  "length (data \<lparr>shape = [1, 1568], data = replicate 1568 (0::rat)\<rparr>) \<noteq> 784
   \<and> reshape \<lparr>shape = [1, 1568], data = replicate 1568 (0::rat)\<rparr> [- 1, 28, 28, 1]
       = Inr \<lparr>shape = [2, 28, 28, 1], data = replicate 1568 0\<rparr>"
  by (simp add: reshape_batch asize_def)


subsection \<open>One-hot encoding\<close>

lemma onehot_row_length: "length (onehot_row c j) = c"
  by (simp add: onehot_row_def)

lemma onehot_row_nth: "i < c \<Longrightarrow> onehot_row c j ! i = (if i = j then 1 else 0)"
  by (simp add: onehot_row_def nth_list_update)

lemma count_list_replicate: "count_list (replicate n x) y = (if x = y then n else 0)"
  by (induction n) auto

lemma onehot_row_count:
  assumes "j < c"
  shows "count_list (onehot_row c j) 1 = 1" and "count_list (onehot_row c j) 0 = c - 1"
proof -
  have eq: "onehot_row c j = replicate j 0 @ [1] @ replicate (c - Suc j) 0"
    using assms by (simp add: onehot_row_def upd_conv_take_nth_drop min_def)
  show "count_list (onehot_row c j) 1 = 1"
    by (simp add: eq count_list_replicate)
  show "count_list (onehot_row c j) 0 = c - 1"
    using assms by (simp add: eq count_list_replicate)
qed

subsection \<open>Arg-max\<close>

lemma argmax_from_first:
  "argmax_from xs i best v = k \<Longrightarrow> best < i \<Longrightarrow>
     (k = best \<and> (\<forall>x\<in>set xs. x \<le> v)) \<or>
     (i \<le> k \<and> k < i + length xs \<and> v < xs ! (k - i)
        \<and> (\<forall>x\<in>set xs. x \<le> xs ! (k - i)) \<and> (\<forall>j<k - i. xs ! j < xs ! (k - i)))"
proof (induction xs arbitrary: i best v)
  case Nil
  then show ?case by simp
next
  case (Cons x xs)
  let ?later = "\<lambda>w. Suc i \<le> k \<and> k < Suc i + length xs \<and> w < xs ! (k - Suc i)
      \<and> (\<forall>y\<in>set xs. y \<le> xs ! (k - Suc i)) \<and> (\<forall>j<k - Suc i. xs ! j < xs ! (k - Suc i))"
  have shift: "k - i = Suc (k - Suc i)" if "Suc i \<le> k"
    using that by simp
  show ?case
  proof (cases "v < x")
    case True
    with Cons.prems have "argmax_from xs (Suc i) i x = k" by simp
    from Cons.IH[OF this] have "(k = i \<and> (\<forall>y\<in>set xs. y \<le> x)) \<or> ?later x"
      by simp
    then show ?thesis
    proof
      assume "k = i \<and> (\<forall>y\<in>set xs. y \<le> x)"
      with True show ?thesis by auto
    next
      assume a: "?later x"
      with True shift show ?thesis
        by (auto simp: less_Suc_eq_0_disj)
    qed
  next
    case False
    with Cons.prems have "argmax_from xs (Suc i) best v = k" "best < Suc i" by simp_all
    from Cons.IH[OF this] have "(k = best \<and> (\<forall>y\<in>set xs. y \<le> v)) \<or> ?later v"
      by simp
    then show ?thesis
    proof
      assume "k = best \<and> (\<forall>y\<in>set xs. y \<le> v)"
      with False show ?thesis by auto
    next
      assume a: "?later v"
      with False shift show ?thesis
        by (auto simp: less_Suc_eq_0_disj)
    qed
  qed
qed

lemma argmax_first_max:
  assumes "data a \<noteq> []"
  shows "\<exists>k. argmax a = Inr k \<and> k < length (data a)
           \<and> (\<forall>x\<in>set (data a). x \<le> data a ! k) \<and> (\<forall>j<k. data a ! j < data a ! k)"
proof -
  from assms obtain v xs where d: "data a = v # xs"
    by (cases "data a") auto
  define k where "k = argmax_from xs 1 0 v"
  have am: "argmax a = Inr k"
    by (simp add: argmax_def d k_def)
  from argmax_from_first[of xs 1 0 v k] k_def
  have "(k = 0 \<and> (\<forall>x\<in>set xs. x \<le> v)) \<or>
        (1 \<le> k \<and> k < 1 + length xs \<and> v < xs ! (k - 1)
          \<and> (\<forall>x\<in>set xs. x \<le> xs ! (k - 1)) \<and> (\<forall>j<k - 1. xs ! j < xs ! (k - 1)))"
    by simp
  then show ?thesis
  proof
    assume "k = 0 \<and> (\<forall>x\<in>set xs. x \<le> v)"
    with am d show ?thesis by auto
  next
    assume a: "1 \<le> k \<and> k < 1 + length xs \<and> v < xs ! (k - 1)
          \<and> (\<forall>x\<in>set xs. x \<le> xs ! (k - 1)) \<and> (\<forall>j<k - 1. xs ! j < xs ! (k - 1))"
    then obtain m where m: "k = Suc m" by (cases k) auto
    with a have "m < length xs" "v < xs ! m" "\<forall>x\<in>set xs. x \<le> xs ! m" "\<forall>j<m. xs ! j < xs ! m"
      by simp_all
    then have "k < length (data a)" "\<forall>x\<in>set (data a). x \<le> data a ! k"
      "\<forall>j<k. data a ! j < data a ! k"
      by (auto simp: d m nth_Cons' less_imp_le)
    with am show ?thesis by blast
  qed
qed

lemma argmax_onehot_row:
  assumes "j < c"
  shows "argmax \<lparr>shape = sh, data = onehot_row c j\<rparr> = Inr j"
proof -
  let ?a = "\<lparr>shape = sh, data = onehot_row c j\<rparr>"
  from assms have ne: "data ?a \<noteq> []"
    using onehot_row_length[of c j] by auto
  from argmax_first_max[OF ne] obtain k where k: "argmax ?a = Inr k" "k < c"
    "\<forall>x\<in>set (onehot_row c j). x \<le> onehot_row c j ! k"
    by (auto simp: onehot_row_length)
  from assms have "onehot_row c j ! j \<in> set (onehot_row c j)"
    by (simp add: onehot_row_length)
  with k(3) have "onehot_row c j ! j \<le> onehot_row c j ! k" by blast
  with assms k(2) have "k = j"
    by (simp add: onehot_row_nth split: if_splits)
  with k(1) show ?thesis by simp
qed

subsection \<open>Encoding labels\<close>

lemma assign_rows_in_range:
  "list_all (\<lambda>L. 0 \<le> L \<and> L < int c) ys \<Longrightarrow>
     assign_rows c ys = Inr (map (\<lambda>L. onehot_row c (nat L)) ys)"
  by (induction ys) (auto simp: py_index_def)

lemma assign_rows_out_of_range:
  "list_ex (\<lambda>L. int c \<le> L \<or> L < - int c) ys \<Longrightarrow> assign_rows c ys = Inl IndexError"
proof (induction ys)
  case Nil
  then show ?case by simp
next
  case (Cons y ys)
  show ?case
  proof (cases "int c \<le> y \<or> y < - int c")
    case True
    then show ?thesis by (auto simp: py_index_def)
  next
    case False
    with Cons have "assign_rows c ys = Inl IndexError" by simp
    then show ?thesis by (simp split: sum.splits) (auto simp: py_index_def split: if_splits)
  qed
qed

lemma astype_int_int64:
  "list_all (\<lambda>L. - (2 ^ 63) \<le> L \<and> L < 2 ^ 63) ys \<Longrightarrow> astype_int ys = Inr ys"
  by (simp add: astype_int_def)

lemma astype_int_small:
  "list_all (\<lambda>L. - 24 \<le> L \<and> L < 24) ys \<Longrightarrow> astype_int ys = Inr ys"
proof -
  assume "list_all (\<lambda>L. - 24 \<le> L \<and> L < 24) ys"
  then have "list_all (\<lambda>L. - (2 ^ 63) \<le> L \<and> L < 2 ^ 63) ys"
    by (induction ys) auto
  then show ?thesis by (rule astype_int_int64)
qed

lemma astype_int_single:
  "astype_int [L] =
     (if - (2 ^ 63) \<le> L \<and> L < 2 ^ 63 then Inr [L]
      else if 2 ^ 63 \<le> L \<and> L < 2 ^ 64 then Inr [L - 2 ^ 64]
      else Inl OverflowError)"
  by (auto simp: astype_int_def)

lemma to_categorical_column:
  "to_categorical \<lparr>shape = [n], data = ys\<rparr> 24 =
     (case astype_int ys of
        Inl e \<Rightarrow> Inl e
      | Inr zs \<Rightarrow>
          (case assign_rows 24 zs of
             Inl e \<Rightarrow> Inl e
           | Inr rs \<Rightarrow> Inr \<lparr>shape = [n, 24], data = concat rs\<rparr>))"
  by (simp add: to_categorical_def Let_def split: sum.splits)

lemma onehot_row_8: "onehot_row 24 8 = [0,0,0,0,0,0,0,0,1,0,0,0,0,0,0,0,0,0,0,0,0,0,0,0]"
  by code_simp

lemma onehot_row_23: "onehot_row 24 23 = [0,0,0,0,0,0,0,0,0,0,0,0,0,0,0,0,0,0,0,0,0,0,0,1]"
  by code_simp

text \<open>
  C3 (amended). For every label \<open>L\<close> in [0,23], \<open>to_categorical\<close> with 24 classes
  yields a 24-wide row with exactly one 1, at index \<open>L\<close>, and 23 zeros, and the
  arg-max of the row is \<open>L\<close>; a column of such labels is encoded row by row. For
  every int64 label outside [-24,23], that is \<open>24 \<le> L < 2^63\<close> or
  \<open>-2^63 \<le> L < -24\<close>, the encoding raises \<open>IndexError\<close> (the spec's
  LabelOutOfRange), also when such a label stands anywhere in a column of int64
  labels. A label in [-24,-1] is not rejected: it is encoded as \<open>L + 24\<close>. A label
  in \<open>[2^63, 2^64)\<close> is first wrapped to \<open>L - 2^64\<close>: it raises \<open>IndexError\<close> below
  \<open>2^64 - 24\<close> and is encoded as \<open>L - 2^64 + 24\<close> from there on. A label of \<open>2^64\<close>
  or more raises \<open>OverflowError\<close>, not \<open>IndexError\<close>. Both notebooks encode with 24
  classes.
\<close>

theorem to_categorical_label:
  "(0 \<le> L \<and> L < 24 \<longrightarrow>
      to_categorical \<lparr>shape = [1], data = [L]\<rparr> num_classes_a
        = Inr \<lparr>shape = [1, 24], data = onehot_row 24 (nat L)\<rparr>
      \<and> length (onehot_row 24 (nat L)) = 24
      \<and> onehot_row 24 (nat L) ! nat L = 1
      \<and> (\<forall>j<24. j \<noteq> nat L \<longrightarrow> onehot_row 24 (nat L) ! j = 0)
      \<and> count_list (onehot_row 24 (nat L)) 1 = 1
      \<and> count_list (onehot_row 24 (nat L)) 0 = 23
      \<and> argmax \<lparr>shape = [1, 24], data = onehot_row 24 (nat L)\<rparr> = Inr (nat L))
   \<and> (24 \<le> L \<and> L < 2 ^ 63 \<or> - (2 ^ 63) \<le> L \<and> L < - 24 \<longrightarrow>
        to_categorical \<lparr>shape = [1], data = [L]\<rparr> num_classes_a = Inl IndexError)
   \<and> (- 24 \<le> L \<and> L < 0 \<longrightarrow>
        to_categorical \<lparr>shape = [1], data = [L]\<rparr> num_classes_a
          = Inr \<lparr>shape = [1, 24], data = onehot_row 24 (nat (L + 24))\<rparr>)
   \<and> (2 ^ 63 \<le> L \<and> L < 2 ^ 64 - 24 \<longrightarrow>
        to_categorical \<lparr>shape = [1], data = [L]\<rparr> num_classes_a = Inl IndexError)
   \<and> (2 ^ 64 - 24 \<le> L \<and> L < 2 ^ 64 \<longrightarrow>
        to_categorical \<lparr>shape = [1], data = [L]\<rparr> num_classes_a
          = Inr \<lparr>shape = [1, 24], data = onehot_row 24 (nat (L - 2 ^ 64 + 24))\<rparr>)
   \<and> (2 ^ 64 \<le> L \<longrightarrow>
        to_categorical \<lparr>shape = [1], data = [L]\<rparr> num_classes_a = Inl OverflowError)
   \<and> (list_all (\<lambda>L. 0 \<le> L \<and> L < 24) ys \<longrightarrow>
        to_categorical \<lparr>shape = [length ys], data = ys\<rparr> num_classes_a
          = Inr \<lparr>shape = [length ys, 24], data = concat (map (\<lambda>L. onehot_row 24 (nat L)) ys)\<rparr>)
   \<and> (list_all (\<lambda>L. - (2 ^ 63) \<le> L \<and> L < 2 ^ 63) ys
        \<and> list_ex (\<lambda>L. 24 \<le> L \<or> L < - 24) ys \<longrightarrow>
        to_categorical \<lparr>shape = [length ys], data = ys\<rparr> num_classes_a = Inl IndexError)
   \<and> num_classes_b = num_classes_a"
proof -
  have in_range: "to_categorical \<lparr>shape = [1], data = [L]\<rparr> num_classes_a
        = Inr \<lparr>shape = [1, 24], data = onehot_row 24 (nat L)\<rparr>"
      "length (onehot_row 24 (nat L)) = 24"
      "onehot_row 24 (nat L) ! nat L = 1"
      "\<forall>j<24. j \<noteq> nat L \<longrightarrow> onehot_row 24 (nat L) ! j = 0"
      "count_list (onehot_row 24 (nat L)) 1 = 1"
      "count_list (onehot_row 24 (nat L)) 0 = 23"
      "argmax \<lparr>shape = [1, 24], data = onehot_row 24 (nat L)\<rparr> = Inr (nat L)"
    if "0 \<le> L \<and> L < 24"
  proof -
    from that have j: "nat L < 24" by auto
    from that show "to_categorical \<lparr>shape = [1], data = [L]\<rparr> num_classes_a
        = Inr \<lparr>shape = [1, 24], data = onehot_row 24 (nat L)\<rparr>"
      by (simp add: num_classes_a_def to_categorical_column astype_int_single py_index_def)
    show "length (onehot_row 24 (nat L)) = 24" by (rule onehot_row_length)
    from j show "onehot_row 24 (nat L) ! nat L = 1" by (simp add: onehot_row_nth)
    show "\<forall>j<24. j \<noteq> nat L \<longrightarrow> onehot_row 24 (nat L) ! j = 0" by (simp add: onehot_row_nth)
    from j show "count_list (onehot_row 24 (nat L)) 1 = 1" by (rule onehot_row_count)
    from onehot_row_count(2)[OF j] show "count_list (onehot_row 24 (nat L)) 0 = 23" by simp
    from j show "argmax \<lparr>shape = [1, 24], data = onehot_row 24 (nat L)\<rparr> = Inr (nat L)"
      by (rule argmax_onehot_row)
  qed
  have outside: "to_categorical \<lparr>shape = [1], data = [L]\<rparr> num_classes_a = Inl IndexError"
    if "24 \<le> L \<and> L < 2 ^ 63 \<or> - (2 ^ 63) \<le> L \<and> L < - 24"
    using that by (auto simp: num_classes_a_def to_categorical_column astype_int_single py_index_def)
  have wraps: "to_categorical \<lparr>shape = [1], data = [L]\<rparr> num_classes_a
          = Inr \<lparr>shape = [1, 24], data = onehot_row 24 (nat (L + 24))\<rparr>"
    if "- 24 \<le> L \<and> L < 0"
    using that by (simp add: num_classes_a_def to_categorical_column astype_int_single py_index_def)
  have unsigned_out: "to_categorical \<lparr>shape = [1], data = [L]\<rparr> num_classes_a = Inl IndexError"
    if "2 ^ 63 \<le> L \<and> L < 2 ^ 64 - 24"
    using that by (simp add: num_classes_a_def to_categorical_column astype_int_single py_index_def)
  have unsigned_wraps: "to_categorical \<lparr>shape = [1], data = [L]\<rparr> num_classes_a
          = Inr \<lparr>shape = [1, 24], data = onehot_row 24 (nat (L - 2 ^ 64 + 24))\<rparr>"
    if "2 ^ 64 - 24 \<le> L \<and> L < 2 ^ 64"
    using that by (simp add: num_classes_a_def to_categorical_column astype_int_single py_index_def)
  have overflow: "to_categorical \<lparr>shape = [1], data = [L]\<rparr> num_classes_a = Inl OverflowError"
    if "2 ^ 64 \<le> L"
    using that by (simp add: num_classes_a_def to_categorical_column astype_int_single)
  have column: "to_categorical \<lparr>shape = [length ys], data = ys\<rparr> num_classes_a
          = Inr \<lparr>shape = [length ys, 24], data = concat (map (\<lambda>L. onehot_row 24 (nat L)) ys)\<rparr>"
    if r: "list_all (\<lambda>L. 0 \<le> L \<and> L < 24) ys"
  proof -
    from r have "list_all (\<lambda>L. - 24 \<le> L \<and> L < 24) ys"
      by (induction ys) auto
    from astype_int_small[OF this] assign_rows_in_range[of 24 ys] r show ?thesis
      by (simp add: num_classes_a_def to_categorical_column)
  qed
  have column_fails: "to_categorical \<lparr>shape = [length ys], data = ys\<rparr> num_classes_a = Inl IndexError"
    if "list_all (\<lambda>L. - (2 ^ 63) \<le> L \<and> L < 2 ^ 63) ys \<and> list_ex (\<lambda>L. 24 \<le> L \<or> L < - 24) ys"
    using assign_rows_out_of_range[of 24 ys] astype_int_int64[of ys] that
    by (simp add: num_classes_a_def to_categorical_column)
  have same: "num_classes_b = num_classes_a"
    by (simp add: num_classes_a_def num_classes_b_def)
  from in_range outside wraps unsigned_out unsigned_wraps overflow column column_fails same
  show ?thesis by blast
qed

theorem to_categorical_label_witness:
  "to_categorical \<lparr>shape = [1], data = [8]\<rparr> num_classes_a
      = Inr \<lparr>shape = [1, 24], data = [0,0,0,0,0,0,0,0,1,0,0,0,0,0,0,0,0,0,0,0,0,0,0,0]\<rparr>
   \<and> argmax \<lparr>shape = [1, 24], data = onehot_row 24 8\<rparr> = Inr 8
   \<and> to_categorical \<lparr>shape = [1], data = [24]\<rparr> num_classes_a = Inl IndexError
   \<and> to_categorical \<lparr>shape = [1], data = [- 25]\<rparr> num_classes_a = Inl IndexError
   \<and> to_categorical \<lparr>shape = [1], data = [- 24]\<rparr> num_classes_a
      = Inr \<lparr>shape = [1, 24], data = onehot_row 24 0\<rparr>
   \<and> to_categorical \<lparr>shape = [1], data = [18446744073709551615]\<rparr> num_classes_a
      = Inr \<lparr>shape = [1, 24], data = onehot_row 24 23\<rparr>
   \<and> to_categorical \<lparr>shape = [1], data = [9223372036854775808]\<rparr> num_classes_a = Inl IndexError
   \<and> to_categorical \<lparr>shape = [1], data = [18446744073709551616]\<rparr> num_classes_a
      = Inl OverflowError
   \<and> to_categorical \<lparr>shape = [2], data = [0, 23]\<rparr> num_classes_a
      = Inr \<lparr>shape = [2, 24], data = onehot_row 24 0 @ onehot_row 24 23\<rparr>
   \<and> to_categorical \<lparr>shape = [2], data = [0, 24]\<rparr> num_classes_a = Inl IndexError"
  using to_categorical_label [of 8 "[0, 23]"] to_categorical_label [of 24 "[0, 24]"]
    to_categorical_label [of "- 25" "[]"] to_categorical_label [of "- 24" "[]"]
    to_categorical_label [of 18446744073709551615 "[]"]
    to_categorical_label [of 9223372036854775808 "[]"]
    to_categorical_label [of 18446744073709551616 "[]"]
  by (simp add: onehot_row_8 numeral_2_eq_2)

text \<open>
  The claim as stated fails at the label -1: it lies outside [0,23], and the encoding
  returns the row of label 23 instead of raising.
\<close>

theorem to_categorical_negative_label_counterexample:
  "\<not> (0 \<le> (- 1 :: int) \<and> (- 1 :: int) \<le> 23)
   \<and> to_categorical \<lparr>shape = [1], data = [- 1]\<rparr> num_classes_a
       = Inr \<lparr>shape = [1, 24], data = [0,0,0,0,0,0,0,0,0,0,0,0,0,0,0,0,0,0,0,0,0,0,0,1]\<rparr>"
  by (simp add: num_classes_a_def to_categorical_column astype_int_single py_index_def onehot_row_23)

subsection \<open>Normalising and reshaping the pixel data\<close>

lemma pixel_offset:
  assumes "i < n" "r < 28" "c < (28::nat)"
  shows "((i * 28 + r) * 28 + c) * 1 + 0 = i * 784 + (28 * r + c)" "28 * r + c < 784"
    "i * 784 + (28 * r + c) < n * 784"
proof -
  show "((i * 28 + r) * 28 + c) * 1 + 0 = i * 784 + (28 * r + c)" by simp
  from assms show lt: "28 * r + c < 784" by simp
  from assms(1) have "Suc i \<le> n" by simp
  then have "Suc i * 784 \<le> n * 784" by (rule mult_le_mono1)
  with lt show "i * 784 + (28 * r + c) < n * 784" by simp
qed

lemma normalize_reshape_array:
  assumes sh: "shape x = [n, 784]" and wf: "wf_array x"
    and px: "\<forall>v\<in>set (data x). 0 \<le> v \<and> v \<le> 255"
  shows "\<exists>g. reshape (true_divide x 255) [- 1, 28, 28, 1] = Inr g
           \<and> shape g = [n, 28, 28, 1] \<and> wf_array g
           \<and> data g = map (\<lambda>v. v / 255) (data x)
           \<and> (\<forall>v\<in>set (data g). 0 \<le> v \<and> v \<le> 1)
           \<and> (\<forall>i<n. \<forall>r<28. \<forall>c<28. \<exists>p. getitem2 x i (28 * r + c) = Inr p
                  \<and> getitem4 g i r c 0 = Inr (p / 255) \<and> 0 \<le> p / 255 \<and> p / 255 \<le> 1)"
proof -
  define g where "g = (true_divide x 255)\<lparr>shape := [n, 28, 28, 1]\<rparr>"
  have sz: "asize (true_divide x 255) = n * 784"
    by (simp add: asize_def true_divide_def sh)
  have r: "reshape (true_divide x 255) [- 1, 28, 28, 1] = Inr g"
    by (simp add: reshape_batch sz g_def)
  have gs: "shape g = [n, 28, 28, 1]" and gd: "data g = map (\<lambda>v. v / 255) (data x)"
    by (simp_all add: g_def true_divide_def)
  from wf sh have len: "length (data x) = n * 784"
    by (simp add: wf_array_def asize_def)
  then have gw: "wf_array g"
    by (simp add: wf_array_def asize_def gs gd)
  from px have rng: "\<forall>v\<in>set (data g). 0 \<le> v \<and> v \<le> 1"
    by (auto simp: gd)
  have cell: "\<exists>p. getitem2 x i (28 * r + c) = Inr p
                  \<and> getitem4 g i r c 0 = Inr (p / 255) \<and> 0 \<le> p / 255 \<and> p / 255 \<le> 1"
    if "i < n" "r < 28" "c < 28" for i r c
  proof -
    let ?k = "i * 784 + (28 * r + c)"
    from pixel_offset[OF that] have off: "((i * 28 + r) * 28 + c) * 1 + 0 = ?k"
      "28 * r + c < 784" "?k < n * 784" by blast+
    from off(3) len have inb: "?k < length (data x)" by simp
    from that off(2) have g2: "getitem2 x i (28 * r + c) = Inr (data x ! ?k)"
      by (simp add: getitem2_def sh)
    from that have "getitem4 g i r c 0 = Inr (data g ! (((i * 28 + r) * 28 + c) * 1 + 0))"
      by (simp add: getitem4_def gs)
    with inb have g4: "getitem4 g i r c 0 = Inr (data x ! ?k / 255)"
      by (simp only: off(1) gd nth_map)
    from inb have "data x ! ?k \<in> set (data x)" by (rule nth_mem)
    with px have "0 \<le> data x ! ?k \<and> data x ! ?k \<le> 255" by blast
    then have "0 \<le> data x ! ?k / 255 \<and> data x ! ?k / 255 \<le> 1" by simp
    with g2 g4 show ?thesis by blast
  qed
  from r gs gw gd rng cell show ?thesis by blast
qed

text \<open>
  C4. When the training and validation arrays hold rows of 784 intensities in
  [0,255], the normalisation cell followed by the reshape cell of notebook A succeeds
  and leaves arrays of 28x28x1 grids, one per sample, whose values all lie in [0,1]:
  the value at row \<open>r\<close>, column \<open>c\<close> of sample \<open>i\<close> is pixel \<open>28 r + c\<close> of that
  sample divided by 255.
\<close>

theorem normalize_then_reshape_unit_range:
  assumes "shape (x_train s) = [n, 784]" and "wf_array (x_train s)"
    and "\<forall>v\<in>set (data (x_train s)). 0 \<le> v \<and> v \<le> 255"
    and "shape (x_valid s) = [m, 784]" and "wf_array (x_valid s)"
    and "\<forall>v\<in>set (data (x_valid s)). 0 \<le> v \<and> v \<le> 255"
  shows "\<exists>s'. reshape_cell (normalize_cell s) = (s', None)
           \<and> shape (x_train s') = [n, 28, 28, 1] \<and> wf_array (x_train s')
           \<and> (\<forall>v\<in>set (data (x_train s')). 0 \<le> v \<and> v \<le> 1)
           \<and> (\<forall>i<n. \<forall>r<28. \<forall>c<28. \<exists>p. getitem2 (x_train s) i (28 * r + c) = Inr p
                  \<and> getitem4 (x_train s') i r c 0 = Inr (p / 255))
           \<and> shape (x_valid s') = [m, 28, 28, 1] \<and> wf_array (x_valid s')
           \<and> (\<forall>v\<in>set (data (x_valid s')). 0 \<le> v \<and> v \<le> 1)
           \<and> (\<forall>i<m. \<forall>r<28. \<forall>c<28. \<exists>p. getitem2 (x_valid s) i (28 * r + c) = Inr p
                  \<and> getitem4 (x_valid s') i r c 0 = Inr (p / 255))"
proof -
  from normalize_reshape_array[OF assms(1-3)] obtain gt where
    gt: "reshape (true_divide (x_train s) 255) [- 1, 28, 28, 1] = Inr gt"
      "shape gt = [n, 28, 28, 1]" "wf_array gt" "\<forall>v\<in>set (data gt). 0 \<le> v \<and> v \<le> 1"
      "\<forall>i<n. \<forall>r<28. \<forall>c<28. \<exists>p. getitem2 (x_train s) i (28 * r + c) = Inr p
                  \<and> getitem4 gt i r c 0 = Inr (p / 255)"
    by blast
  from normalize_reshape_array[OF assms(4-6)] obtain gv where
    gv: "reshape (true_divide (x_valid s) 255) [- 1, 28, 28, 1] = Inr gv"
      "shape gv = [m, 28, 28, 1]" "wf_array gv" "\<forall>v\<in>set (data gv). 0 \<le> v \<and> v \<le> 1"
      "\<forall>i<m. \<forall>r<28. \<forall>c<28. \<exists>p. getitem2 (x_valid s) i (28 * r + c) = Inr p
                  \<and> getitem4 gv i r c 0 = Inr (p / 255)"
    by blast
  let ?s' = "(normalize_cell s)\<lparr>x_train := gt, x_valid := gv\<rparr>"
  have run: "reshape_cell (normalize_cell s) = (?s', None)"
    by (simp add: reshape_cell_def normalize_cell_def Let_def gt(1) gv(1))
  show ?thesis
  proof (intro exI[of _ ?s'] conjI)
    show "reshape_cell (normalize_cell s) = (?s', None)" by (rule run)
  qed (use gt(2-5) gv(2-5) in simp_all)
qed

theorem normalize_then_reshape_unit_range_witness:
  "\<exists>s'. reshape_cell (normalize_cell
            \<lparr>x_train = \<lparr>shape = [1, 784], data = replicate 784 255\<rparr>,
             y_train = \<lparr>shape = [1], data = [0]\<rparr>,
             x_valid = \<lparr>shape = [1, 784], data = replicate 784 0\<rparr>,
             y_valid = \<lparr>shape = [1], data = [0]\<rparr>\<rparr>) = (s', None)
        \<and> shape (x_train s') = [1, 28, 28, 1]
        \<and> getitem4 (x_train s') 0 27 27 0 = Inr 1
        \<and> shape (x_valid s') = [1, 28, 28, 1]
        \<and> getitem4 (x_valid s') 0 0 0 0 = Inr 0"
proof -
  define s where "s = \<lparr>x_train = \<lparr>shape = [1, 784], data = replicate 784 (255::rat)\<rparr>,
             y_train = \<lparr>shape = [1], data = [0::int]\<rparr>,
             x_valid = \<lparr>shape = [1, 784], data = replicate 784 (0::rat)\<rparr>,
             y_valid = \<lparr>shape = [1], data = [0::int]\<rparr>\<rparr>"
  have h: "shape (x_train s) = [1, 784]" "wf_array (x_train s)"
    "\<forall>v\<in>set (data (x_train s)). 0 \<le> v \<and> v \<le> 255"
    "shape (x_valid s) = [1, 784]" "wf_array (x_valid s)"
    "\<forall>v\<in>set (data (x_valid s)). 0 \<le> v \<and> v \<le> 255"
    by (simp_all add: s_def wf_array_def asize_def)
  have g2: "getitem2 (x_train s) 0 (28 * 27 + 27) = Inr 255"
    "getitem2 (x_valid s) 0 (28 * 0 + 0) = Inr 0"
    by (simp_all add: s_def getitem2_def)
  from normalize_then_reshape_unit_range[OF h] obtain s' where
    run: "reshape_cell (normalize_cell s) = (s', None)"
    and st: "shape (x_train s') = [1, 28, 28, 1]" and sv: "shape (x_valid s') = [1, 28, 28, 1]"
    and ct: "\<forall>i<1. \<forall>r<28. \<forall>c<28. \<exists>p. getitem2 (x_train s) i (28 * r + c) = Inr p
                  \<and> getitem4 (x_train s') i r c 0 = Inr (p / 255)"
    and cv: "\<forall>i<1. \<forall>r<28. \<forall>c<28. \<exists>p. getitem2 (x_valid s) i (28 * r + c) = Inr p
                  \<and> getitem4 (x_valid s') i r c 0 = Inr (p / 255)"
    by (elim exE conjE) 
  from ct[rule_format, of 0 27 27] g2(1) have t: "getitem4 (x_train s') 0 27 27 0 = Inr 1"
    by simp
  from cv[rule_format, of 0 0 0] g2(2) have v: "getitem4 (x_valid s') 0 0 0 0 = Inr 0"
    by simp
  from run st sv t v show ?thesis
    unfolding s_def by (intro exI[of _ s'] conjI)
qed

subsection \<open>The inference function\<close>

lemma str_getitem_alphabet: "k < 24 \<Longrightarrow> str_getitem alphabet (int k) = Inr (alphabet ! k)"
  by (simp add: str_getitem_def py_index_def alphabet_def)

lemma inference_input:
  assumes "im_mode img = Grayscale" "im_height img = 28" "im_width img = 28"
  shows "reshape (img_to_array img) [1, 28, 28, 1]
           = Inr \<lparr>shape = [1, 28, 28, 1], data = map rat_of_nat (im_pixels img)\<rparr>"
    and "true_divide \<lparr>shape = [1, 28, 28, 1], data = map rat_of_nat (im_pixels img)\<rparr> 255
           = \<lparr>shape = [1, 28, 28, 1], data = map (\<lambda>v. rat_of_nat v / 255) (im_pixels img)\<rparr>"
  using assms by (simp_all add: reshape_single img_to_array_def asize_def true_divide_def)

lemma predict_letter_run:
  assumes "imread E p = Inr raw"
    and "load_img E p Grayscale (Some (28, 28)) = Inr img"
    and "im_mode img = Grayscale" "im_height img = 28" "im_width img = 28"
    and "model_predict E \<lparr>shape = [1, 28, 28, 1],
            data = map (\<lambda>v. rat_of_nat v / 255) (im_pixels img)\<rparr> = Inr pr"
    and "argmax pr = Inr k"
  shows "predict_letter E p figs = (str_getitem alphabet (int k), figs @ [raw])"
  using assms inference_input[OF assms(3-5)]
  by (simp add: predict_letter_def show_image_def load_and_scale_image_def raise_or_def Let_def)




text \<open>
  C8. Under the same conditions \<open>predict_letter\<close> returns, without an error, the
  character at the first index that holds the maximum of the 24 probabilities: no
  probability exceeds the one at that index and every earlier one is strictly smaller.
  When all probabilities are equal, as for a degenerate model on a blank image, the
  index is 0 and the character is \<open>a\<close>.
\<close>

theorem predict_letter_tie_break:
  assumes "imread E p = Inr raw"
    and "load_img E p Grayscale (Some (28, 28)) = Inr img"
    and "im_mode img = Grayscale" "im_height img = 28" "im_width img = 28"
    and "model_predict E \<lparr>shape = [1, 28, 28, 1],
            data = map (\<lambda>v. rat_of_nat v / 255) (im_pixels img)\<rparr> = Inr pr"
    and "length (data pr) = 24"
  shows "(\<exists>k<24. predict_letter E p figs = (Inr (alphabet ! k), figs @ [raw])
            \<and> (\<forall>v\<in>set (data pr). v \<le> data pr ! k)
            \<and> (\<forall>j<k. data pr ! j < data pr ! k))
    \<and> ((\<forall>v\<in>set (data pr). v = data pr ! 0)
          \<longrightarrow> predict_letter E p figs = (Inr CHR ''a'', figs @ [raw]))"
proof -
  from assms(7) have "data pr \<noteq> []" by auto
  from argmax_first_max[OF this] assms(7) obtain k where k: "argmax pr = Inr k" "k < 24"
    "\<forall>v\<in>set (data pr). v \<le> data pr ! k" "\<forall>j<k. data pr ! j < data pr ! k"
    by auto
  from predict_letter_run[OF assms(1-6) k(1)] k(2)
  have res: "predict_letter E p figs = (Inr (alphabet ! k), figs @ [raw])"
    by (simp add: str_getitem_alphabet)
  have tie: "predict_letter E p figs = (Inr CHR ''a'', figs @ [raw])"
    if eq: "\<forall>v\<in>set (data pr). v = data pr ! 0"
  proof -
    have "k = 0"
    proof (rule ccontr)
      assume "k \<noteq> 0"
      then have "0 < k" by simp
      with k(4) have lt: "data pr ! 0 < data pr ! k" by blast
      from k(2) assms(7) have "data pr ! k \<in> set (data pr)" by simp
      with eq have "data pr ! k = data pr ! 0" by blast
      with lt show False by simp
    qed
    with res show ?thesis by (simp add: alphabet_def)
  qed
  from res k(2,3,4) tie show ?thesis by blast
qed

theorem predict_letter_tie_break_witness:
  "predict_letter (blank_runtime (replicate 24 (1 / 24))) ''blank.png'' []
     = (Inr CHR ''a'', [\<lparr>shape = [28, 28], data = replicate 784 0\<rparr>])"
  using predict_letter_tie_break [of "blank_runtime (replicate 24 (1 / 24))" "''blank.png''"
      "\<lparr>shape = [28, 28], data = replicate 784 0\<rparr>" blank_image
      "\<lparr>shape = [1, 24], data = replicate 24 (1 / 24)\<rparr>" "[]"]
  by (simp add: blank_runtime_def blank_image_def)




subsection \<open>Encoding the labels once\<close>

lemma shape_getitem_last:
  "shape_getitem a (- 1) = (if shape a = [] then Inl IndexError else Inr (last (shape a)))"
  by (cases "shape a" rule: rev_cases) (auto simp: shape_getitem_def py_index_def nth_append)

lemma to_categorical_shape:
  assumes "to_categorical y num_classes_a = Inr z"
  shows "shape z \<noteq> []" and "last (shape z) = 24"
    and "length (shape z) \<le> Suc (length (shape y))"
  using assms
  by (auto simp: to_categorical_def num_classes_a_def Let_def split: sum.splits if_splits)

lemma categorize_cell_skip:
  "shape_getitem (y_train s) (- 1) = Inr 24 \<Longrightarrow> categorize_cell s = (s, None)"
  by (simp add: categorize_cell_def)

lemma categorize_cell_fst:
  "fst (categorize_cell s) = s
   \<or> (\<exists>yt. to_categorical (y_train s) num_classes_a = Inr yt
         \<and> fst (categorize_cell s) = s\<lparr>y_train := yt\<rparr>)
   \<or> (\<exists>yt yv. to_categorical (y_train s) num_classes_a = Inr yt
         \<and> to_categorical (y_valid s) num_classes_a = Inr yv
         \<and> fst (categorize_cell s) = s\<lparr>y_train := yt, y_valid := yv\<rparr>)"
  by (simp add: categorize_cell_def split: sum.splits)

lemma categorize_cell_cases:
  obtains (unchanged) "fst (categorize_cell s) = s"
  | (train_only) yt where "to_categorical (y_train s) num_classes_a = Inr yt"
      "fst (categorize_cell s) = s\<lparr>y_train := yt\<rparr>"
  | (both) yt yv where "to_categorical (y_train s) num_classes_a = Inr yt"
      "to_categorical (y_valid s) num_classes_a = Inr yv"
      "fst (categorize_cell s) = s\<lparr>y_train := yt, y_valid := yv\<rparr>"
  using categorize_cell_fst[of s] by blast

lemma categorize_cell_idem:
  "fst (categorize_cell (fst (categorize_cell s))) = fst (categorize_cell s)"
proof -
  have skip: "fst (categorize_cell s') = s'"
    if "to_categorical (y_train s) num_classes_a = Inr yt" "y_train s' = yt" for s' yt
  proof -
    from to_categorical_shape(1,2)[OF that(1)] that(2)
    have "shape_getitem (y_train s') (- 1) = Inr 24"
      by (simp add: shape_getitem_last)
    from categorize_cell_skip[OF this] show ?thesis by simp
  qed
  show ?thesis
  proof (cases s rule: categorize_cell_cases)
    case unchanged
    then show ?thesis by simp
  next
    case (train_only yt)
    with skip[OF train_only(1), of "s\<lparr>y_train := yt\<rparr>"] show ?thesis by simp
  next
    case (both yt yv)
    with skip[OF both(1), of "s\<lparr>y_train := yt, y_valid := yv\<rparr>"] show ?thesis by simp
  qed
qed

lemma run_times_idem:
  assumes "\<And>s. fst (cell (fst (cell s))) = fst (cell s)"
  shows "run_times (Suc k) cell s = fst (cell s)"
proof (induction k arbitrary: s)
  case 0
  show ?case by simp
next
  case (Suc k)
  have "run_times (Suc (Suc k)) cell s = run_times (Suc k) cell (fst (cell s))" by simp
  also have "\<dots> = fst (cell (fst (cell s)))" by (rule Suc.IH)
  also have "\<dots> = fst (cell s)" by (rule assms)
  finally show ?case .
qed

lemma categorize_cell_once:
  "(y_train (fst (categorize_cell s)) = y_train s
      \<or> to_categorical (y_train s) num_classes_a = Inr (y_train (fst (categorize_cell s))))
   \<and> (y_valid (fst (categorize_cell s)) = y_valid s
      \<or> to_categorical (y_valid s) num_classes_a = Inr (y_valid (fst (categorize_cell s))))"
  by (cases s rule: categorize_cell_cases) simp_all

lemma categorize_cell_dims:
  assumes "length (shape (y_train s)) = 1" "length (shape (y_valid s)) = 1"
  shows "length (shape (y_train (fst (categorize_cell s)))) \<le> 2
       \<and> length (shape (y_valid (fst (categorize_cell s)))) \<le> 2"
proof (cases s rule: categorize_cell_cases)
  case unchanged
  with assms show ?thesis by simp
next
  case (train_only yt)
  with assms to_categorical_shape(3)[OF train_only(1)] show ?thesis by simp
next
  case (both yt yv)
  with assms to_categorical_shape(3)[OF both(1)] to_categorical_shape(3)[OF both(2)]
  show ?thesis by simp
qed

lemma run_times_dims:
  assumes "length (shape (y_train s)) = 1" "length (shape (y_valid s)) = 1"
  shows "length (shape (y_train (run_times k categorize_cell s))) \<le> 2
       \<and> length (shape (y_valid (run_times k categorize_cell s))) \<le> 2"
proof (cases k)
  case 0
  with assms show ?thesis by simp
next
  case (Suc j)
  have "run_times (Suc j) categorize_cell s = fst (categorize_cell s)"
    by (rule run_times_idem) (rule categorize_cell_idem)
  with Suc categorize_cell_dims[OF assms] show ?thesis by simp
qed

lemma prepare_data_b_idem:
  "fst (prepare_data_b rc (fst (prepare_data_b rc s))) = fst (prepare_data_b rc s)"
  by (simp add: prepare_data_b_def assign_def split: sum.splits)

lemma prepare_data_b_labels:
  "snd (prepare_data_b rc s) = None \<longrightarrow>
     (\<exists>df labels. rc train_csv = Inr df \<and> df_getitem df ''label'' = Inr labels
        \<and> to_categorical labels num_classes_b = Inr (y_train (fst (prepare_data_b rc s))))"
  by (simp add: prepare_data_b_def assign_def split: sum.split)

lemma run_times_once:
  "(y_train (run_times k categorize_cell s) = y_train s
      \<or> to_categorical (y_train s) num_classes_a = Inr (y_train (run_times k categorize_cell s)))
   \<and> (y_valid (run_times k categorize_cell s) = y_valid s
      \<or> to_categorical (y_valid s) num_classes_a = Inr (y_valid (run_times k categorize_cell s)))"
proof (cases k)
  case 0
  then show ?thesis by simp
next
  case (Suc j)
  have "run_times (Suc j) categorize_cell s = fst (categorize_cell s)"
    by (rule run_times_idem) (rule categorize_cell_idem)
  with Suc categorize_cell_once[of s] show ?thesis by simp
qed

lemma to_categorical_again:
  assumes "list_all (\<lambda>L. 0 \<le> L \<and> L < 24) (data y)" and "shape y = [n, 24]"
  shows "\<exists>z. to_categorical y 24 = Inr z \<and> shape z = [n, 24, 24]"
proof -
  from assms(1) have "list_all (\<lambda>L. - 24 \<le> L \<and> L < 24) (data y)"
    by (induction "data y") (auto simp: list_all_iff)
  from astype_int_small[OF this] assign_rows_in_range[of 24 "data y"] assms show ?thesis
    by (simp add: to_categorical_def Let_def)
qed

text \<open>
  C6 (amended). The encoding cell of notebook A looks, before it encodes, at the last
  dimension of \<open>y_train\<close> only, and changes nothing when that dimension is already
  24. Started on label columns that are both raw (one-dimensional), however often the
  cell runs, a second and every later run leaves the variables as the first run
  left them, each label array is either still the raw column or its encoding, and
  no label array ever has more than two dimensions: the encoding is applied at most
  once. Notebook B has no such check: its encoding stands in the data cell, which
  reads the labels from the CSV file again, so that running the cell again and again
  gives what one run gives, the labels of the file encoded once.
\<close>

theorem labels_encoded_at_most_once:
  assumes "length (shape (y_train s)) = 1" and "length (shape (y_valid s)) = 1"
  shows "(shape_getitem (y_train s') (- 1) = Inr 24 \<longrightarrow> categorize_cell s' = (s', None))
   \<and> run_times (Suc k) categorize_cell s = fst (categorize_cell s)
   \<and> (y_train (run_times k categorize_cell s) = y_train s
        \<or> to_categorical (y_train s) 24 = Inr (y_train (run_times k categorize_cell s)))
   \<and> (y_valid (run_times k categorize_cell s) = y_valid s
        \<or> to_categorical (y_valid s) 24 = Inr (y_valid (run_times k categorize_cell s)))
   \<and> length (shape (y_train (run_times k categorize_cell s))) \<le> 2
   \<and> length (shape (y_valid (run_times k categorize_cell s))) \<le> 2
   \<and> run_times (Suc k) (prepare_data_b read_csv) b = fst (prepare_data_b read_csv b)
   \<and> (snd (prepare_data_b read_csv b) = None \<longrightarrow>
        (\<exists>df labels. read_csv train_csv = Inr df \<and> df_getitem df ''label'' = Inr labels
           \<and> to_categorical labels 24 = Inr (y_train (fst (prepare_data_b read_csv b)))))"
proof -
  have a: "run_times (Suc k) categorize_cell s = fst (categorize_cell s)"
    by (rule run_times_idem) (rule categorize_cell_idem)
  have b: "run_times (Suc k) (prepare_data_b read_csv) b = fst (prepare_data_b read_csv b)"
    by (rule run_times_idem) (rule prepare_data_b_idem)
  have nc: "num_classes_a = 24" "num_classes_b = 24"
    by (simp_all add: num_classes_a_def num_classes_b_def)
  from a b categorize_cell_skip[of s'] run_times_once[of k s] run_times_dims[OF assms, of k]
    prepare_data_b_labels[of read_csv b]
  show ?thesis
    unfolding nc by (intro conjI impI) (simp_all only:)
qed

lemma raw_labels_once:
  "fst (categorize_cell raw_labels) =
     raw_labels\<lparr>y_train := \<lparr>shape = [2, 24], data = onehot_row 24 3 @ onehot_row 24 0\<rparr>,
                y_valid := \<lparr>shape = [1, 24], data = onehot_row 24 1\<rparr>\<rparr>"
  by (simp add: raw_labels_def categorize_cell_def shape_getitem_def py_index_def
      to_categorical_def astype_int_def num_classes_a_def Let_def)

lemma one_row_csv_run:
  "prepare_data_b one_row_csv s =
     (s\<lparr>x_train := \<lparr>shape = [1, 28, 28, 1], data = replicate 784 0\<rparr>,
        y_train := \<lparr>shape = [1, 24], data = onehot_row 24 3\<rparr>,
        x_valid := \<lparr>shape = [1, 28, 28, 1], data = replicate 784 0\<rparr>,
        y_valid := \<lparr>shape = [1, 24], data = onehot_row 24 3\<rparr>,
        train_df := \<lparr>columns = replicate 784 ''pixel'', rows = [replicate 784 0]\<rparr>,
        valid_df := \<lparr>columns = replicate 784 ''pixel'', rows = [replicate 784 0]\<rparr>\<rparr>, None)"
  by (simp add: prepare_data_b_def assign_def one_row_csv_def df_getitem_def df_delitem_def
      df_values_def to_categorical_def astype_int_def num_classes_b_def py_index_def Let_def
      reshape_batch asize_def true_divide_def)

theorem labels_encoded_at_most_once_witness:
  "run_times 3 categorize_cell raw_labels =
     raw_labels\<lparr>y_train := \<lparr>shape = [2, 24], data = onehot_row 24 3 @ onehot_row 24 0\<rparr>,
                y_valid := \<lparr>shape = [1, 24], data = onehot_row 24 1\<rparr>\<rparr>
   \<and> categorize_cell (fst (categorize_cell raw_labels)) = (fst (categorize_cell raw_labels), None)
   \<and> length (shape (y_train (run_times 3 categorize_cell raw_labels))) \<le> 2
   \<and> y_train (run_times 3 (prepare_data_b one_row_csv) empty_notebook_b)
       = \<lparr>shape = [1, 24], data = onehot_row 24 3\<rparr>"
proof -
  have three: "(3::nat) = Suc 2" by simp
  have skip: "shape_getitem (y_train (fst (categorize_cell raw_labels))) (- 1) = Inr 24"
    by (simp add: raw_labels_once shape_getitem_def py_index_def)
  have raw: "length (shape (y_train raw_labels)) = 1" "length (shape (y_valid raw_labels)) = 1"
    by (simp_all add: raw_labels_def)
  note run = labels_encoded_at_most_once[OF raw, where read_csv = one_row_csv
      and b = empty_notebook_b and s' = "fst (categorize_cell raw_labels)"]
  from run[of 2] have "run_times 3 categorize_cell raw_labels = fst (categorize_cell raw_labels)
    \<and> run_times 3 (prepare_data_b one_row_csv) empty_notebook_b
       = fst (prepare_data_b one_row_csv empty_notebook_b)"
    unfolding three by (elim conjE) (rule conjI)
  moreover from run[of 0, THEN conjunct1, THEN mp, OF skip]
  have "categorize_cell (fst (categorize_cell raw_labels)) = (fst (categorize_cell raw_labels), None)" .
  moreover from run[of 3]
  have "length (shape (y_train (run_times 3 categorize_cell raw_labels))) \<le> 2"
    by (elim conjE)
  ultimately show ?thesis by (simp add: raw_labels_once one_row_csv_run)
qed

text \<open>
  The claim as stated fails in both notebooks. In notebook A the cell does not look at
  \<open>y_valid\<close>: with \<open>y_train\<close> raw and \<open>y_valid\<close> already one-hot it encodes \<open>y_valid\<close> a
  second time, into three dimensions, without an error. In notebook B nothing is
  checked: its encoding statement, applied to labels that are already one-hot,
  encodes them again.
\<close>

theorem labels_encoded_twice_counterexample:
  "shape (y_valid half_encoded) = [1, 24]
   \<and> snd (categorize_cell half_encoded) = None
   \<and> shape (y_valid (fst (categorize_cell half_encoded))) = [1, 24, 24]
   \<and> map_sum id shape (to_categorical (y_valid half_encoded) num_classes_b) = Inr [1, 24, 24]"
proof -
  have r: "list_all (\<lambda>L. 0 \<le> L \<and> L < 24) (data (y_valid half_encoded))"
    unfolding half_encoded_def by code_simp
  have sh: "shape (y_valid half_encoded) = [1, 24]"
    by (simp add: half_encoded_def)
  from to_categorical_again[OF r sh] obtain z where
    z: "to_categorical (y_valid half_encoded) 24 = Inr z" "shape z = [1, 24, 24]"
    by (elim exE conjE)
  have t: "to_categorical (y_train half_encoded) 24
             = Inr \<lparr>shape = [1, 24], data = onehot_row 24 3\<rparr>"
    by (simp add: half_encoded_def to_categorical_column astype_int_single py_index_def)
  have g: "shape_getitem (y_train half_encoded) (- 1) = Inr 1"
    by (simp add: half_encoded_def shape_getitem_def py_index_def)
  from z t g have "categorize_cell half_encoded
      = (half_encoded\<lparr>y_train := \<lparr>shape = [1, 24], data = onehot_row 24 3\<rparr>, y_valid := z\<rparr>, None)"
    by (simp add: categorize_cell_def num_classes_a_def)
  with z sh show ?thesis by (simp add: num_classes_b_def)
qed

subsection \<open>The batch iterator and the training call\<close>

lemma next_batch_frame:
  "it_n (snd (next_batch it)) = it_n it"
  "it_batch_size (snd (next_batch it)) = it_batch_size it"
  "total_batches_seen (snd (next_batch it)) = Suc (total_batches_seen it)"
  by (simp_all add: next_batch_def Let_def)



lemma draw_frame:
  "it_n (snd (draw k it)) = it_n it \<and> it_batch_size (snd (draw k it)) = it_batch_size it
   \<and> total_batches_seen (snd (draw k it)) = total_batches_seen it + k"
  by (induction k arbitrary: it) (simp_all add: split_beta Let_def next_batch_frame)














end
